theory Spec2Isabelle
  imports Main "HOL-Library.AList"
begin

section \<open>Data model\<close>

text \<open>
  Structured values exchanged with the collaborators (tool arguments, input schemas,
  tool results). The client never inspects them; it only passes them on and, for tool
  arguments, renders them with Python's \<open>str\<close>.
\<close>

datatype json = JNull | JBool bool | JInt int | JStr string
  | JList "json list" | JObj "(string \<times> json) list"

text \<open>\<open>mcp.Tool\<close>, as far as the client reads it.\<close>

record tool =
  name :: string
  description :: string
  inputSchema :: json

text \<open>Sessions and stream ends are opaque objects; a handle stands for one.\<close>

type_synonym handle = nat

text \<open>\<open>class ServerConnection\<close>\<close>

record server_connection =
  server_id :: string
  session :: handle
  stdio :: handle
  write_h :: handle
  tools :: "tool list"

text \<open>The dictionary built for every tool in \<open>process_query\<close>.\<close>

record tool_dict =
  td_name :: string
  td_description :: string
  td_input_schema :: json

text \<open>
  Content blocks of a model response. A block that is neither \<open>text\<close> nor
  \<open>tool_use\<close> carries its class name only.
\<close>

datatype content =
  TextBlock string
| ToolUseBlock string string json
| OtherBlock string

text \<open>
  The message list of \<open>process_query\<close>. Every assistant message holds a reference to
  the one list \<open>assistant_message_content\<close>, so it is kept as a reference here and
  resolved when the list is sent.
\<close>

datatype message = UserQuery string | AssistantRef | ToolResult string json

datatype wire_message =
  WUser string | WAssistant "content list" | WToolResult string json

record request =
  rq_model :: string
  rq_max_tokens :: nat
  rq_messages :: "wire_message list"
  rq_tools :: "tool_dict list"

text \<open>Exceptions, each with the text \<open>str(e)\<close> gives.\<close>

datatype error =
  ValueError string
| AttributeError string
| IndexError string
| KeyError string
| TypeError string
| ExternalError string

fun error_str :: "error \<Rightarrow> string" where
  "error_str (ValueError m) = m"
| "error_str (AttributeError m) = m"
| "error_str (IndexError m) = m"
| "error_str (KeyError m) = m"
| "error_str (TypeError m) = m"
| "error_str (ExternalError m) = m"

text \<open>Calls that leave the process, in the order they are made.\<close>

datatype event =
  EvStdioClient string "string list"
| EvClientSession handle handle
| EvInitialize handle
| EvListTools handle
| EvCallTool handle string json
| EvMessagesCreate request
| EvClose

text \<open>
  The collaborators. Each answers from the calls made so far and the arguments of this
  call, with an exception or a value. \<open>py_str\<close> and \<open>py_repr_names\<close> are Python's
  \<open>str\<close> on the tool arguments and \<open>repr\<close> on a list of strings.
\<close>

record env =
  stdio_client :: "event list \<Rightarrow> string \<Rightarrow> string list \<Rightarrow> error + (handle \<times> handle)"
  client_session :: "event list \<Rightarrow> handle \<Rightarrow> handle \<Rightarrow> error + handle"
  initialize :: "event list \<Rightarrow> handle \<Rightarrow> error + unit"
  list_tools :: "event list \<Rightarrow> handle \<Rightarrow> error + tool list"
  call_tool :: "event list \<Rightarrow> handle \<Rightarrow> string \<Rightarrow> json \<Rightarrow> error + json"
  messages_create :: "event list \<Rightarrow> request \<Rightarrow> error + content list"
  py_str :: "json \<Rightarrow> string"
  py_repr_names :: "string list \<Rightarrow> string"

text \<open>
  \<open>class MCPClient\<close>. \<open>servers\<close> is a Python dictionary, which iterates in insertion
  order: an association list. \<open>self_stdio\<close> and \<open>self_write\<close> are unset until the
  first connect. \<open>exit_stack\<close> counts the contexts entered. \<open>trace\<close> records the
  external calls made; \<open>stdout\<close> the texts given to \<open>print\<close> and the prompts of
  \<open>input\<close>, in order.
\<close>

record mcp_client =
  self_session :: "handle option"
  self_stdio :: "handle option"
  self_write :: "handle option"
  exit_stack :: nat
  servers :: "(string \<times> server_connection) list"
  current_server_id :: "string option"
  trace :: "event list"
  stdout :: "string list"

definition init_client :: mcp_client where
  "init_client = \<lparr>self_session = None, self_stdio = None, self_write = None,
     exit_stack = 0, servers = [], current_server_id = None, trace = [], stdout = []\<rparr>"

section \<open>Strings\<close>

definition sq :: char where "sq = CHR 0x27"

definition nl :: char where "nl = CHR 0x0A"

definition quoted :: "string \<Rightarrow> string" where
  "quoted s = sq # s @ [sq]"

definition endswith :: "string \<Rightarrow> string \<Rightarrow> bool" where
  "endswith s suf = (length suf \<le> length s \<and> drop (length s - length suf) s = suf)"

definition startswith :: "string \<Rightarrow> string \<Rightarrow> bool" where
  "startswith s pre = (take (length pre) s = pre)"

fun join_str :: "string \<Rightarrow> string list \<Rightarrow> string" where
  "join_str sep [] = []"
| "join_str sep [x] = x"
| "join_str sep (x # y # ys) = x @ sep @ join_str sep (y # ys)"

section \<open>Effects\<close>

definition log_call :: "event \<Rightarrow> mcp_client \<Rightarrow> mcp_client" where
  "log_call ev s = s\<lparr>trace := trace s @ [ev]\<rparr>"

definition py_print :: "string \<Rightarrow> mcp_client \<Rightarrow> mcp_client" where
  "py_print line s = s\<lparr>stdout := stdout s @ [line]\<rparr>"

definition has_server :: "mcp_client \<Rightarrow> string \<Rightarrow> bool" where
  "has_server s sid = (map_of (servers s) sid \<noteq> None)"

section \<open>ServerConnection\<close>

text \<open>
  \<open>ServerConnection.list_tools\<close> on the connection stored under \<open>sid\<close>: the fetched
  list replaces the cached one of that object.
\<close>

definition conn_list_tools ::
  "env \<Rightarrow> mcp_client \<Rightarrow> string \<Rightarrow> server_connection \<Rightarrow> (error + tool list) \<times> mcp_client" where
  "conn_list_tools E s sid conn =
     (let s1 = log_call (EvListTools (session conn)) s in
      case list_tools E (trace s) (session conn) of
        Inl e \<Rightarrow> (Inl e, s1)
      | Inr ts \<Rightarrow> (Inr ts, s1\<lparr>servers := AList.update sid (conn\<lparr>tools := ts\<rparr>) (servers s1)\<rparr>))"

definition conn_call_tool ::
  "env \<Rightarrow> mcp_client \<Rightarrow> server_connection \<Rightarrow> string \<Rightarrow> json \<Rightarrow> (error + json) \<times> mcp_client" where
  "conn_call_tool E s conn tool_name tool_args =
     (call_tool E (trace s) (session conn) tool_name tool_args,
      log_call (EvCallTool (session conn) tool_name tool_args) s)"

section \<open>MCPClient: the registry\<close>

definition connect_to_server ::
  "env \<Rightarrow> mcp_client \<Rightarrow> string \<Rightarrow> string \<Rightarrow> (error + unit) \<times> mcp_client" where
  "connect_to_server E s sid server_script_path =
     (if has_server s sid then
        (Inr (), py_print (''Server with ID '' @ quoted sid @ '' already exists.'') s)
      else
        (let is_python = endswith server_script_path ''.py'';
             is_js = endswith server_script_path ''.js''
         in
         if \<not> (is_python \<or> is_js) then
           (Inl (ValueError ''Server script must be a .py or .js file''), s)
         else
           (let command = (if is_python then ''python'' else ''node'');
                s1 = log_call (EvStdioClient command [server_script_path]) s
            in
            (case stdio_client E (trace s) command [server_script_path] of
               Inl e \<Rightarrow> (Inl e, s1)
             | Inr (rd, wr) \<Rightarrow>
                 (let s2 = s1\<lparr>exit_stack := Suc (exit_stack s1),
                             self_stdio := Some rd, self_write := Some wr\<rparr>;
                      s3 = log_call (EvClientSession rd wr) s2
                  in
                  (case client_session E (trace s2) rd wr of
                     Inl e \<Rightarrow> (Inl e, s3)
                   | Inr sess \<Rightarrow>
                       (let s4 = s3\<lparr>exit_stack := Suc (exit_stack s3),
                                   self_session := Some sess\<rparr>;
                            s5 = log_call (EvInitialize sess) s4
                        in
                        (case initialize E (trace s4) sess of
                           Inl e \<Rightarrow> (Inl e, s5)
                         | Inr u \<Rightarrow>
                             (let server_conn =
                                    \<lparr>server_id = sid, session = sess, stdio = rd,
                                     write_h = wr, tools = []\<rparr>;
                                  s6 = s5\<lparr>servers :=
                                          AList.update sid server_conn (servers s5)\<rparr>;
                                  s7 = (if current_server_id s6 = None
                                        then s6\<lparr>current_server_id := Some sid\<rparr> else s6)
                              in
                              (case conn_list_tools E s7 sid server_conn of
                                 (Inl e, s8) \<Rightarrow> (Inl e, s8)
                               | (Inr ts, s8) \<Rightarrow>
                                   (Inr (),
                                    py_print ((nl # ''Connected to server with tools: '')
                                              @ py_repr_names E (map name ts)) s8)))))))))))"

definition switch_server :: "mcp_client \<Rightarrow> string \<Rightarrow> bool \<times> mcp_client" where
  "switch_server s sid =
     (if has_server s sid then
        (True, py_print (''Switched to server: '' @ sid) (s\<lparr>current_server_id := Some sid\<rparr>))
      else
        (False, py_print (''Server '' @ quoted sid @ '' not found.'') s))"

definition disconnected_server :: "mcp_client \<Rightarrow> string \<Rightarrow> bool \<times> mcp_client" where
  "disconnected_server s sid =
     (if \<not> has_server s sid then
        (False, py_print (''Server '' @ quoted sid @ '' not found'') s)
      else
        let s1 = s\<lparr>servers := AList.delete sid (servers s)\<rparr>;
            s2 = (if Some sid = current_server_id s1 then
                    (case servers s1 of
                       (k, _) # _ \<Rightarrow> s1\<lparr>current_server_id := Some k\<rparr>
                     | [] \<Rightarrow> s1\<lparr>current_server_id := None\<rparr>)
                  else s1)
        in (True, py_print (''Disconnected from server: '' @ sid) s2))"

section \<open>MCPClient: one query\<close>

text \<open>Python's truth test on \<open>self.current_server_id\<close>: \<open>None\<close> and the empty string are false.\<close>

definition falsy :: "string option \<Rightarrow> bool" where
  "falsy v = (case v of None \<Rightarrow> True | Some x \<Rightarrow> x = [])"

definition no_active_server :: string where
  "no_active_server = '' No active server. Please to at least one server first''"

type_synonym catalog = "tool_dict list \<times> (string \<rightharpoonup> string)"

definition qualified_tool :: "string \<Rightarrow> tool \<Rightarrow> tool_dict" where
  "qualified_tool sid t =
     \<lparr>td_name = name t,
      td_description = ''[Server: '' @ sid @ ''] '' @ description t,
      td_input_schema = inputSchema t\<rparr>"

text \<open>The inner loop \<open>for tool in tools\<close>.\<close>

fun add_tools :: "string \<Rightarrow> tool list \<Rightarrow> catalog \<Rightarrow> catalog" where
  "add_tools sid [] acc = acc"
| "add_tools sid (t # ts) (all_tools, server_tool_map) =
     add_tools sid ts (all_tools @ [qualified_tool sid t], server_tool_map(name t \<mapsto> sid))"

text \<open>The outer loop \<open>for server_id, server in self.servers.items()\<close>.\<close>

fun build_catalog ::
  "env \<Rightarrow> mcp_client \<Rightarrow> (string \<times> server_connection) list \<Rightarrow> catalog
     \<Rightarrow> (error + catalog) \<times> mcp_client" where
  "build_catalog E s [] acc = (Inr acc, s)"
| "build_catalog E s ((sid, server) # rest) acc =
     (case conn_list_tools E s sid server of
        (Inl e, s1) \<Rightarrow> (Inl e, s1)
      | (Inr ts, s1) \<Rightarrow> build_catalog E s1 rest (add_tools sid ts acc))"

text \<open>The locals of \<open>process_query\<close> that the block loop changes.\<close>

record pq_state =
  final_text :: "string list"
  assistant_message_content :: "content list"
  messages :: "message list"

fun resolve :: "content list \<Rightarrow> message \<Rightarrow> wire_message" where
  "resolve amc (UserQuery q) = WUser q"
| "resolve amc AssistantRef = WAssistant amc"
| "resolve amc (ToolResult tid c) = WToolResult tid c"

definition mk_request :: "content list \<Rightarrow> message list \<Rightarrow> tool_dict list \<Rightarrow> request" where
  "mk_request amc msgs all_tools =
     \<lparr>rq_model = ''claude-3-5-sonnet-20241022'', rq_max_tokens = 1000,
      rq_messages = map (resolve amc) msgs, rq_tools = all_tools\<rparr>"

text \<open>\<open>self.anthropic.messages.create(...)\<close> with the locals as they are at the call.\<close>

definition anthropic_create ::
  "env \<Rightarrow> mcp_client \<Rightarrow> pq_state \<Rightarrow> tool_dict list \<Rightarrow> (error + content list) \<times> mcp_client" where
  "anthropic_create E s st all_tools =
     (let rq = mk_request (assistant_message_content st) (messages st) all_tools in
      (messages_create E (trace s) rq, log_call (EvMessagesCreate rq) s))"

text \<open>\<open>response.content[0].text\<close>\<close>

fun first_text :: "content list \<Rightarrow> error + string" where
  "first_text [] = Inl (IndexError ''list index out of range'')"
| "first_text (TextBlock t # _) = Inr t"
| "first_text (ToolUseBlock _ _ _ # _) =
     Inl (AttributeError (quoted ''ToolUseBlock'' @ '' object has no attribute '' @ quoted ''text''))"
| "first_text (OtherBlock cls # _) =
     Inl (AttributeError (quoted cls @ '' object has no attribute '' @ quoted ''text''))"

definition calling_notice :: "env \<Rightarrow> string \<Rightarrow> string \<Rightarrow> json \<Rightarrow> string" where
  "calling_notice E tool_name sid tool_args =
     ''[Calling tool '' @ tool_name @ '' on server '' @ sid @ '' with args ''
       @ py_str E tool_args @ '']''"

definition tool_not_found :: "string \<Rightarrow> string" where
  "tool_not_found tool_name =
     ''Error: Tool '' @ tool_name @ '' not found on any connected server.''"

text \<open>The body of \<open>for content in response.content\<close>.\<close>

fun process_block ::
  "env \<Rightarrow> tool_dict list \<Rightarrow> (string \<rightharpoonup> string) \<Rightarrow> pq_state \<Rightarrow> mcp_client \<Rightarrow> content
     \<Rightarrow> (error + pq_state) \<times> mcp_client" where
  "process_block E all_tools server_tool_map st s (TextBlock t) =
     (Inr (st\<lparr>final_text := final_text st @ [t],
               assistant_message_content := assistant_message_content st @ [TextBlock t]\<rparr>), s)"
| "process_block E all_tools server_tool_map st s (OtherBlock cls) = (Inr st, s)"
| "process_block E all_tools server_tool_map st s (ToolUseBlock tid tool_name tool_args) =
     (case server_tool_map tool_name of
        None \<Rightarrow> (Inr (st\<lparr>final_text := final_text st @ [tool_not_found tool_name]\<rparr>), s)
      | Some sid \<Rightarrow>
          (case map_of (servers s) sid of
             None \<Rightarrow> (Inl (KeyError (quoted sid)), s)
           | Some server \<Rightarrow>
               (case conn_call_tool E s server tool_name tool_args of
                  (Inl e, s1) \<Rightarrow> (Inl e, s1)
                | (Inr result_content, s1) \<Rightarrow>
                    (let st1 = st\<lparr>final_text := final_text st
                                     @ [calling_notice E tool_name sid tool_args],
                                   assistant_message_content := assistant_message_content st
                                     @ [ToolUseBlock tid tool_name tool_args],
                                   messages := messages st
                                     @ [AssistantRef, ToolResult tid result_content]\<rparr>
                     in
                     (case anthropic_create E s1 st1 all_tools of
                        (Inl e, s2) \<Rightarrow> (Inl e, s2)
                      | (Inr response, s2) \<Rightarrow>
                          (case first_text response of
                             Inl e \<Rightarrow> (Inl e, s2)
                           | Inr t \<Rightarrow>
                               (Inr (st1\<lparr>final_text := final_text st1 @ [t]\<rparr>), s2)))))))"

fun process_blocks ::
  "env \<Rightarrow> tool_dict list \<Rightarrow> (string \<rightharpoonup> string) \<Rightarrow> pq_state \<Rightarrow> mcp_client \<Rightarrow> content list
     \<Rightarrow> (error + pq_state) \<times> mcp_client" where
  "process_blocks E all_tools server_tool_map st s [] = (Inr st, s)"
| "process_blocks E all_tools server_tool_map st s (b # bs) =
     (case process_block E all_tools server_tool_map st s b of
        (Inl e, s1) \<Rightarrow> (Inl e, s1)
      | (Inr st1, s1) \<Rightarrow> process_blocks E all_tools server_tool_map st1 s1 bs)"

definition process_query ::
  "env \<Rightarrow> mcp_client \<Rightarrow> string \<Rightarrow> (error + string) \<times> mcp_client" where
  "process_query E s query =
     (if falsy (current_server_id s) then (Inr no_active_server, s)
      else
        (let st0 = \<lparr>final_text = [], assistant_message_content = [],
                    messages = [UserQuery query]\<rparr>
         in
         (case build_catalog E s (servers s) ([], Map.empty) of
            (Inl e, s1) \<Rightarrow> (Inl e, s1)
          | (Inr (all_tools, server_tool_map), s1) \<Rightarrow>
              (case anthropic_create E s1 st0 all_tools of
                 (Inl e, s2) \<Rightarrow> (Inl e, s2)
               | (Inr response, s2) \<Rightarrow>
                   (case process_blocks E all_tools server_tool_map st0 s2 response of
                      (Inl e, s3) \<Rightarrow> (Inl e, s3)
                    | (Inr st, s3) \<Rightarrow> (Inr (join_str [nl] (final_text st)), s3))))))"

section \<open>MCPClient: the interactive loop\<close>

text \<open>
  \<open>str.strip\<close>, \<open>str.split\<close> and \<open>str.lower\<close> on ASCII text: the whitespace characters
  are tab, line feed, vertical tab, form feed, carriage return, the four separators
  \<open>0x1C\<close> to \<open>0x1F\<close> and the space.
\<close>

definition is_space :: "char \<Rightarrow> bool" where
  "is_space c = (c \<in> set [CHR 0x09, CHR 0x0A, CHR 0x0B, CHR 0x0C, CHR 0x0D,
                            CHR 0x1C, CHR 0x1D, CHR 0x1E, CHR 0x1F, CHR 0x20])"

definition strip :: "string \<Rightarrow> string" where
  "strip s = rev (dropWhile is_space (rev (dropWhile is_space s)))"

fun split_acc :: "string \<Rightarrow> string \<Rightarrow> string list" where
  "split_acc cur [] = (if cur = [] then [] else [cur])"
| "split_acc cur (c # cs) =
     (if is_space c then (if cur = [] then split_acc [] cs else cur # split_acc [] cs)
      else split_acc (cur @ [c]) cs)"

definition split_ws :: "string \<Rightarrow> string list" where
  "split_ws s = split_acc [] s"

definition lower_char :: "char \<Rightarrow> char" where
  "lower_char c =
     (case map_of (zip ''ABCDEFGHIJKLMNOPQRSTUVWXYZ'' ''abcdefghijklmnopqrstuvwxyz'') c of
        None \<Rightarrow> c | Some l \<Rightarrow> l)"

definition lower :: "string \<Rightarrow> string" where
  "lower s = map lower_char s"

definition list_servers :: "env \<Rightarrow> mcp_client \<Rightarrow> mcp_client" where
  "list_servers E s =
     (if servers s = [] then py_print ''No servers connected'' s
      else
        fold (\<lambda>(sid, server) acc.
                py_print (''  - '' @ sid @ '' [''
                          @ (if Some sid = current_server_id s then ''ACTIVE'' else ''CONNECTED'')
                          @ '': Tools: '' @ py_repr_names E (map name (tools server)) @ '']'') acc)
             (servers s) (py_print (nl # ''Connected servers:'') s))"

text \<open>
  The methods \<open>class MCPClient\<close> defines. Looking up any other name on the object
  raises \<open>AttributeError\<close>; the instance attributes set in \<open>__init__\<close> are not callable
  and none of them is named like a command handler.
\<close>

datatype client_method =
  ConnectToServer | SwitchServer | ListServers | DisconnectedServer
| ProcessQuery | ChatLoop | Cleanup

definition mcp_client_methods :: "(string \<times> client_method) list" where
  "mcp_client_methods =
     [(''connect_to_server'', ConnectToServer),
      (''switch_server'', SwitchServer),
      (''list_servers'', ListServers),
      (''disconnected_server'', DisconnectedServer),
      (''process_query'', ProcessQuery),
      (''chat_loop'', ChatLoop),
      (''cleanup'', Cleanup)]"

definition getattr_method :: "string \<Rightarrow> error + client_method" where
  "getattr_method a =
     (case map_of mcp_client_methods a of
        None \<Rightarrow> Inl (AttributeError (quoted ''MCPClient'' @ '' object has no attribute ''
                                      @ quoted a))
      | Some m \<Rightarrow> Inr m)"

text \<open>\<open>await m(arg)\<close> for a method looked up by name, with one argument.\<close>

fun await_method1 ::
  "env \<Rightarrow> mcp_client \<Rightarrow> client_method \<Rightarrow> string \<Rightarrow> (error + unit) \<times> mcp_client" where
  "await_method1 E s DisconnectedServer a = (Inr (), snd (disconnected_server s a))"
| "await_method1 E s ProcessQuery a =
     (case process_query E s a of (Inl e, s1) \<Rightarrow> (Inl e, s1) | (Inr r, s1) \<Rightarrow> (Inr (), s1))"
| "await_method1 E s SwitchServer a =
     (Inl (TypeError ''object bool can't be used in 'await' expression''),
      snd (switch_server s a))"
| "await_method1 E s m a = (Inl (TypeError ''wrong number of positional arguments''), s)"

text \<open>
  The body of the \<open>try\<close> in \<open>chat_loop\<close> for one line read by \<open>input\<close>: the result is
  whether the loop breaks.
\<close>

definition handle_input :: "env \<Rightarrow> mcp_client \<Rightarrow> string \<Rightarrow> (error + bool) \<times> mcp_client" where
  "handle_input E s line =
     (let user_input = strip line in
      if lower user_input = ''/quit'' then (Inr True, s)
      else if startswith user_input ''/'' then
        (let parts = split_ws user_input in
         (case parts of
            [] \<Rightarrow> (Inl (IndexError ''list index out of range''), s)
          | p0 # ps \<Rightarrow>
              (let command = lower p0 in
               if command = ''/connect'' \<and> 3 \<le> length parts then
                 (case connect_to_server E s (parts ! 1) (parts ! 2) of
                    (Inl e, s1) \<Rightarrow> (Inl e, s1)
                  | (Inr u, s1) \<Rightarrow> (Inr False, s1))
               else if command = ''/switch'' \<and> 2 \<le> length parts then
                 (Inr False, snd (switch_server s (parts ! 1)))
               else if command = ''/list'' then (Inr False, list_servers E s)
               else if command = ''/disconnect'' \<and> 2 \<le> length parts then
                 (case getattr_method ''disconnect_server'' of
                    Inl e \<Rightarrow> (Inl e, s)
                  | Inr m \<Rightarrow>
                      (case await_method1 E s m (parts ! 1) of
                         (Inl e, s1) \<Rightarrow> (Inl e, s1)
                       | (Inr u, s1) \<Rightarrow> (Inr False, s1)))
               else
                 (Inr False,
                  py_print ''Invalid command format. Type /help for available commands.'' s))))
      else
        (case process_query E s user_input of
           (Inl e, s1) \<Rightarrow> (Inl e, s1)
         | (Inr response, s1) \<Rightarrow> (Inr False, py_print (nl # response) s1)))"

text \<open>One round of \<open>while True\<close>: the prompt, the body, and the \<open>except Exception\<close>.\<close>

definition chat_step :: "env \<Rightarrow> mcp_client \<Rightarrow> string \<Rightarrow> bool \<times> mcp_client" where
  "chat_step E s line =
     (case handle_input E (py_print (nl # ''Query or command: '') s) line of
        (Inl e, s1) \<Rightarrow> (False, py_print (nl # ''Error: '' @ error_str e) s1)
      | (Inr b, s1) \<Rightarrow> (b, s1))"

text \<open>
  The loop over the lines that standard input holds. It returns at \<open>/quit\<close>. When the
  input ends first, \<open>input\<close> raises \<open>EOFError\<close>, the handler prints it and the loop
  goes on for ever: the result is \<open>None\<close>.
\<close>

fun chat_rounds :: "env \<Rightarrow> mcp_client \<Rightarrow> string list \<Rightarrow> mcp_client option" where
  "chat_rounds E s [] = None"
| "chat_rounds E s (line # rest) =
     (case chat_step E s line of
        (True, s1) \<Rightarrow> Some s1
      | (False, s1) \<Rightarrow> chat_rounds E s1 rest)"

definition chat_banner :: "string list" where
  "chat_banner =
     [nl # ''MCP Client Started!'',
      ''Type your queries or use commands:'',
      ''  /connect <server_id> <script_path> - Connect to a new server'',
      ''  /switch <server_id> - Switch active server'',
      ''  /list - List connected servers'',
      ''  /disconnect <server_id> - Disconnect from a server'',
      ''  /quit - Exit the client'']"

definition chat_loop :: "env \<Rightarrow> mcp_client \<Rightarrow> string list \<Rightarrow> mcp_client option" where
  "chat_loop E s lines = chat_rounds E (fold py_print chat_banner s) lines"

definition cleanup :: "mcp_client \<Rightarrow> mcp_client" where
  "cleanup s = (log_call EvClose s)\<lparr>exit_stack := 0\<rparr>"

section \<open>main\<close>

definition usage_lines :: "string list" where
  "usage_lines =
     [''Usage: python main.py <server_id> <path_to_server_script> [<server_id2> <path_to_server_script2> ...]'',
      ''Example: python main.py calculator calculator_server.py search search_server.py'']"

definition pair_error_line :: string where
  "pair_error_line = ''Error: Each server must have both an ID and a script path.''"

text \<open>\<open>for i in range(1, len(sys.argv), 2)\<close>, from index \<open>i\<close> on.\<close>

function connect_all ::
  "env \<Rightarrow> mcp_client \<Rightarrow> string list \<Rightarrow> nat \<Rightarrow> (error + unit) \<times> mcp_client" where
  "connect_all E s argv i =
     (if i < length argv then
        (if i + 1 < length argv then
           (case connect_to_server E s (argv ! i) (argv ! (i + 1)) of
              (Inl e, s1) \<Rightarrow> (Inl e, s1)
            | (Inr u, s1) \<Rightarrow> connect_all E s1 argv (i + 2))
         else (Inl (IndexError ''list index out of range''), s))
      else (Inr (), s))"
  by pat_completeness auto
termination
  by (relation "measure (\<lambda>(E, s, argv, i). length argv - i)") auto

text \<open>
  How the process ends: \<open>sys.exit\<close> with a status, an exception that leaves \<open>main\<close>,
  a normal return, or no return (the loop of \<open>chat_loop\<close> after the input has ended).
\<close>

datatype ending = SysExit nat | Uncaught error | Returned | NoReturn

definition main :: "env \<Rightarrow> string list \<Rightarrow> string list \<Rightarrow> ending \<times> mcp_client" where
  "main E argv lines =
     (if length argv < 3 then (SysExit 1, fold py_print usage_lines init_client)
      else if length argv mod 2 \<noteq> 1 then (SysExit 1, py_print pair_error_line init_client)
      else
        (case connect_all E init_client argv 1 of
           (Inl e, s1) \<Rightarrow> (Uncaught e, cleanup s1)
         | (Inr u, s1) \<Rightarrow>
             (case chat_loop E s1 lines of
                None \<Rightarrow> (NoReturn, s1)
              | Some s2 \<Rightarrow> (Returned, cleanup s2))))"

section \<open>Registry states and operation sequences\<close>

text \<open>The invariant of the registry: the current server, when set, is a key of \<open>servers\<close>.\<close>

definition current_ok :: "mcp_client \<Rightarrow> bool" where
  "current_ok s = (case current_server_id s of None \<Rightarrow> True | Some c \<Rightarrow> has_server s c)"

datatype op = Connect string string | Switch string | Disconnect string

text \<open>
  One registry operation. An exception raised by \<open>connect_to_server\<close> leaves the client
  as it was when raised.
\<close>

fun apply_op :: "env \<Rightarrow> mcp_client \<Rightarrow> op \<Rightarrow> mcp_client" where
  "apply_op E s (Connect sid path) = snd (connect_to_server E s sid path)"
| "apply_op E s (Switch sid) = snd (switch_server s sid)"
| "apply_op E s (Disconnect sid) = snd (disconnected_server s sid)"

definition run_ops :: "env \<Rightarrow> mcp_client \<Rightarrow> op list \<Rightarrow> mcp_client" where
  "run_ops E s ops = fold (\<lambda>x acc. apply_op E acc x) ops s"

text \<open>The current server after \<open>disconnected_server\<close> has removed \<open>sid\<close>.\<close>

definition new_current :: "mcp_client \<Rightarrow> string \<Rightarrow> string option" where
  "new_current s sid =
     (if Some sid = current_server_id s then
        (case AList.delete sid (servers s) of [] \<Rightarrow> None | (k, v) # rest \<Rightarrow> Some k)
      else current_server_id s)"

definition command_of :: "string \<Rightarrow> string" where
  "command_of path = (if endswith path ''.py'' then ''python'' else ''node'')"

text \<open>The registry of \<open>s'\<close> is that of \<open>s\<close> with \<open>conn\<close> stored under \<open>sid\<close>.\<close>

definition registered :: "mcp_client \<Rightarrow> string \<Rightarrow> server_connection \<Rightarrow> mcp_client \<Rightarrow> bool" where
  "registered s sid conn s' =
     (servers s' = AList.update sid conn (servers s) \<and>
      current_server_id s' =
        (case current_server_id s of None \<Rightarrow> Some sid | Some c \<Rightarrow> Some c))"

section \<open>A calculator server\<close>

text \<open>
  Python's rendering of the values that occur below: \<open>str\<close> of integers, of strings
  without quotes or escapes, of lists and of dictionaries.
\<close>

definition digit_char :: "nat \<Rightarrow> char" where
  "digit_char d = (''0123456789'' ! d)"

function show_nat :: "nat \<Rightarrow> string" where
  "show_nat n = (if n < 10 then [digit_char n] else show_nat (n div 10) @ [digit_char (n mod 10)])"
  by pat_completeness auto
termination
  by (relation "measure id") auto

declare show_nat.simps [simp del]

definition show_int :: "int \<Rightarrow> string" where
  "show_int i = (if i < 0 then CHR ''-'' # show_nat (nat (- i)) else show_nat (nat i))"

fun show_json :: "json \<Rightarrow> string" where
  "show_json JNull = ''None''"
| "show_json (JBool b) = (if b then ''True'' else ''False'')"
| "show_json (JInt i) = show_int i"
| "show_json (JStr s) = quoted s"
| "show_json (JList xs) = ''['' @ join_str '', '' (map show_json xs) @ '']''"
| "show_json (JObj kvs) =
     ''{'' @ join_str '', '' (map (\<lambda>(k, v). quoted k @ '': '' @ show_json v) kvs) @ ''}''"

definition show_names :: "string list \<Rightarrow> string" where
  "show_names xs = ''['' @ join_str '', '' (map quoted xs) @ '']''"

definition add_tool :: tool where
  "add_tool = \<lparr>name = ''add'', description = ''Add two numbers'',
     inputSchema = JObj [(''type'', JStr ''object'')]\<rparr>"

definition add_args :: json where
  "add_args = JObj [(''a'', JInt 2), (''b'', JInt 3)]"

text \<open>
  Collaborators that never fail: every server lists the one tool \<open>add\<close> and answers
  \<open>5\<close>; the model asks for \<open>add\<close> when it has the query only, and answers in plain
  text once the conversation holds a tool result.
\<close>

definition calc_env :: env where
  "calc_env =
     \<lparr>stdio_client = (\<lambda>tr cmd args. Inr (1, 2)),
      client_session = (\<lambda>tr rd wr. Inr 3),
      initialize = (\<lambda>tr h. Inr ()),
      list_tools = (\<lambda>tr h. Inr [add_tool]),
      call_tool = (\<lambda>tr h n a. Inr (JInt 5)),
      messages_create = (\<lambda>tr rq.
         if length (rq_messages rq) = 1 then Inr [ToolUseBlock ''toolu_01'' ''add'' add_args]
         else Inr [TextBlock ''The result is 5'']),
      py_str = show_json,
      py_repr_names = show_names\<rparr>"

definition handshake_fail_env :: env where
  "handshake_fail_env = calc_env\<lparr>initialize := (\<lambda>tr h. Inl (ExternalError ''handshake failed''))\<rparr>"

definition tool_list_fail_env :: env where
  "tool_list_fail_env = calc_env\<lparr>list_tools := (\<lambda>tr h. Inl (ExternalError ''connection closed''))\<rparr>"

definition calc_client :: mcp_client where
  "calc_client = snd (connect_to_server calc_env init_client ''calc'' ''calc.py'')"

definition two_client :: mcp_client where
  "two_client = snd (connect_to_server calc_env calc_client ''search'' ''search.js'')"

text \<open>
  Two servers whose ids and tool descriptions are chosen so that the prefixed
  descriptions coincide. The session handle is the number of calls made so far, so the
  two connections have the sessions 1 and 5.
\<close>

definition clash_env :: env where
  "clash_env =
     calc_env\<lparr>client_session := (\<lambda>tr rd wr. Inr (length tr)),
              list_tools := (\<lambda>tr h.
                 if h = 1 then Inr [\<lparr>name = ''x'', description = ''x] d'', inputSchema = JNull\<rparr>]
                 else Inr [\<lparr>name = ''x'', description = ''d'', inputSchema = JNull\<rparr>])\<rparr>"

definition clash_client :: mcp_client where
  "clash_client = run_ops clash_env init_client [Connect ''s'' ''a.py'', Connect ''s] x'' ''b.py'']"




section \<open>Startup arguments as pairs\<close>



declare connect_all.simps [simp del]

section \<open>The registry\<close>

lemma current_ok_iff:
  "current_ok s \<longleftrightarrow> (\<forall>c. current_server_id s = Some c \<longrightarrow> map_of (servers s) c \<noteq> None)"
  by (simp add: current_ok_def has_server_def split: option.split)

lemma disconnected_absent:
  "\<not> has_server s sid \<Longrightarrow>
   disconnected_server s sid = (False, py_print (''Server '' @ quoted sid @ '' not found'') s)"
  by (simp add: disconnected_server_def)

lemma disconnected_present:
  "has_server s sid \<Longrightarrow>
   disconnected_server s sid =
     (True, py_print (''Disconnected from server: '' @ sid)
              (s\<lparr>servers := AList.delete sid (servers s),
                 current_server_id := new_current s sid\<rparr>))"
  by (simp add: disconnected_server_def new_current_def Let_def split: list.split)

lemma delete_hd:
  assumes "AList.delete sid al = (k, v) # rest"
  shows "k \<noteq> sid \<and> map_of al k \<noteq> None"
proof -
  have "(k, v) \<in> set (AList.delete sid al)" using assms by simp
  then have mem: "k \<in> fst ` set (AList.delete sid al)" by force
  have "k \<noteq> sid" using mem delete_notin_dom [of sid al] by auto
  moreover have "k \<in> fst ` set al" using mem dom_delete_subset [of sid al] by auto
  ultimately show ?thesis by (simp add: map_of_eq_None_iff)
qed

lemma current_ok_switch: "current_ok s \<Longrightarrow> current_ok (snd (switch_server s sid))"
  by (simp add: switch_server_def current_ok_iff has_server_def py_print_def)

lemma current_ok_disconnected:
  "current_ok s \<Longrightarrow> current_ok (snd (disconnected_server s sid))"
proof (cases "has_server s sid")
  case False
  assume "current_ok s"
  then show ?thesis using False
    by (simp add: disconnected_absent current_ok_iff py_print_def)
next
  case True
  assume ok: "current_ok s"
  show ?thesis
  proof (cases "Some sid = current_server_id s")
    case False
    then show ?thesis using ok
      by (auto simp: disconnected_present [OF True] current_ok_iff py_print_def new_current_def
          delete_conv')
  next
    case cur: True
    show ?thesis
    proof (cases "AList.delete sid (servers s)")
      case Nil
      then show ?thesis using cur
        by (simp add: disconnected_present [OF True] current_ok_iff py_print_def new_current_def)
    next
      case (Cons p rest)
      obtain k v where p: "p = (k, v)" by (cases p)
      show ?thesis using cur Cons p
        by (simp add: disconnected_present [OF True] current_ok_iff py_print_def new_current_def)
    qed
  qed
qed


lemma connect_fresh_cases:
  assumes fresh: "\<not> has_server s sid"
  obtains
    (bad_suffix) "connect_to_server E s sid path =
        (Inl (ValueError ''Server script must be a .py or .js file''), s)"
  | (transport) e where "connect_to_server E s sid path =
        (Inl e, log_call (EvStdioClient (command_of path) [path]) s)"
  | (session) e rd wr s' where "connect_to_server E s sid path = (Inl e, s')"
      "trace s' = trace s @ [EvStdioClient (command_of path) [path], EvClientSession rd wr]"
      "servers s' = servers s" "current_server_id s' = current_server_id s"
  | (handshake) e rd wr sess s' where "connect_to_server E s sid path = (Inl e, s')"
      "trace s' = trace s @ [EvStdioClient (command_of path) [path], EvClientSession rd wr,
                             EvInitialize sess]"
      "servers s' = servers s" "current_server_id s' = current_server_id s"
  | (tool_list) e rd wr sess s' where "connect_to_server E s sid path = (Inl e, s')"
      "trace s' = trace s @ [EvStdioClient (command_of path) [path], EvClientSession rd wr,
                             EvInitialize sess, EvListTools sess]"
      "registered s sid \<lparr>server_id = sid, session = sess, stdio = rd, write_h = wr, tools = []\<rparr> s'"
  | (connected) ts rd wr sess s' where "connect_to_server E s sid path = (Inr (), s')"
      "registered s sid \<lparr>server_id = sid, session = sess, stdio = rd, write_h = wr, tools = ts\<rparr> s'"
proof (cases "endswith path ''.py'' \<or> endswith path ''.js''")
  case False
  then have "connect_to_server E s sid path =
      (Inl (ValueError ''Server script must be a .py or .js file''), s)"
    using fresh by (simp add: connect_to_server_def)
  then show ?thesis by (rule bad_suffix)
next
  case True
  then have ok: "(\<not> endswith path ''.py'' \<and> \<not> endswith path ''.js'') = False" by simp
  let ?c = "connect_to_server E s sid path"
  have pair: "?c = (fst ?c, snd ?c)" by simp
  show ?thesis
  proof (cases "stdio_client E (trace s) (command_of path) [path]")
    case (Inl e)
    then have "?c = (Inl e, log_call (EvStdioClient (command_of path) [path]) s)"
      using fresh by (simp add: ok connect_to_server_def command_of_def [symmetric] Let_def)
    then show ?thesis by (rule transport)
  next
    case (Inr p)
    obtain rd wr where p: "p = (rd, wr)" by (cases p)
    note spawn = Inr [unfolded p]
    show ?thesis
    proof (cases "client_session E (trace s @ [EvStdioClient (command_of path) [path]]) rd wr")
      case (Inl e)
      have "fst ?c = Inl e"
        "trace (snd ?c) = trace s @ [EvStdioClient (command_of path) [path], EvClientSession rd wr]"
        "servers (snd ?c) = servers s" "current_server_id (snd ?c) = current_server_id s"
        using fresh spawn Inl
        by (simp_all add: ok connect_to_server_def command_of_def [symmetric] log_call_def Let_def)
      then show ?thesis using session [of e "snd ?c" rd wr] pair by simp
    next
      case sess: (Inr sess)
      show ?thesis
      proof (cases "initialize E (trace s @ [EvStdioClient (command_of path) [path],
                      EvClientSession rd wr]) sess")
        case (Inl e)
        have "fst ?c = Inl e"
          "trace (snd ?c) = trace s @ [EvStdioClient (command_of path) [path],
             EvClientSession rd wr, EvInitialize sess]"
          "servers (snd ?c) = servers s" "current_server_id (snd ?c) = current_server_id s"
          using fresh spawn sess Inl
          by (simp_all add: ok connect_to_server_def command_of_def [symmetric] log_call_def Let_def)
        then show ?thesis using handshake [of e "snd ?c" rd wr sess] pair by simp
      next
        case ini: (Inr u)
        show ?thesis
        proof (cases "list_tools E (trace s @ [EvStdioClient (command_of path) [path],
                        EvClientSession rd wr, EvInitialize sess]) sess")
          case (Inl e)
          have "fst ?c = Inl e"
            "trace (snd ?c) = trace s @ [EvStdioClient (command_of path) [path],
               EvClientSession rd wr, EvInitialize sess, EvListTools sess]"
            "registered s sid \<lparr>server_id = sid, session = sess, stdio = rd, write_h = wr,
               tools = []\<rparr> (snd ?c)"
            using fresh spawn sess ini Inl
            by (simp_all add: ok connect_to_server_def conn_list_tools_def command_of_def [symmetric]
                log_call_def Let_def registered_def split: option.split)
          then show ?thesis using tool_list [of e "snd ?c" rd wr sess] pair by simp
        next
          case (Inr ts)
          have "fst ?c = Inr ()"
            "registered s sid \<lparr>server_id = sid, session = sess, stdio = rd, write_h = wr,
               tools = ts\<rparr> (snd ?c)"
            using fresh spawn sess ini Inr
            by (simp_all add: ok connect_to_server_def conn_list_tools_def command_of_def [symmetric]
                log_call_def py_print_def Let_def registered_def split: option.split)
          then show ?thesis using connected [of "snd ?c" sess rd wr ts] pair by simp
        qed
      qed
    qed
  qed
qed


lemma connect_duplicate:
  "has_server s sid \<Longrightarrow>
   connect_to_server E s sid path =
     (Inr (), py_print (''Server with ID '' @ quoted sid @ '' already exists.'') s)"
  by (simp add: connect_to_server_def)

lemma current_ok_registered:
  "current_ok s \<Longrightarrow> registered s sid conn s' \<Longrightarrow> current_ok s'"
  by (auto simp: current_ok_iff registered_def update_conv' split: option.splits)

lemma current_ok_connect:
  assumes ok: "current_ok s"
  shows "current_ok (snd (connect_to_server E s sid path))"
proof (cases "has_server s sid")
  case True
  then show ?thesis using ok by (simp add: connect_duplicate current_ok_iff py_print_def)
next
  case False
  then show ?thesis
  proof (cases rule: connect_fresh_cases [of s sid E path])
    case bad_suffix
    then show ?thesis using ok by simp
  next
    case (transport e)
    then show ?thesis using ok by (simp add: current_ok_iff log_call_def)
  next
    case (session e rd wr s')
    then show ?thesis using ok by (simp add: current_ok_iff)
  next
    case (handshake e rd wr sess s')
    then show ?thesis using ok by (simp add: current_ok_iff)
  next
    case (tool_list e rd wr sess s')
    then show ?thesis using ok current_ok_registered by simp
  next
    case (connected ts rd wr sess s')
    then show ?thesis using ok current_ok_registered by simp
  qed
qed

lemma current_ok_apply: "current_ok s \<Longrightarrow> current_ok (apply_op E s x)"
  by (cases x) (simp_all add: current_ok_connect current_ok_switch current_ok_disconnected)

lemma current_ok_run: "current_ok s \<Longrightarrow> current_ok (run_ops E s ops)"
  unfolding run_ops_def
  by (induction ops arbitrary: s) (simp_all add: current_ok_apply)

lemma current_ok_init: "current_ok init_client"
  by (simp add: current_ok_def init_client_def)

text \<open>
  C4. Starting from the empty registry, after every operation of any finite sequence of
  connect, switch and disconnect operations (whatever the collaborators answer, and also
  when a connect raises), \<open>current_server_id\<close> is unset or a key of \<open>servers\<close>.
  The state after the first \<open>n\<close> operations of \<open>ops\<close> is \<open>run_ops E init_client (take n ops)\<close>.
\<close>

theorem registry_invariant: "current_ok (run_ops E init_client (take n ops))"
  by (rule current_ok_run [OF current_ok_init])

text \<open>
  C8, as amended. \<open>connect_to_server\<close> with an id that is already a key of \<open>servers\<close>
  changes nothing but standard output, where it prints the line
  \<open>Server with ID '<id>' already exists.\<close>: the registry entry with its session, streams
  and cached tools, \<open>current_server_id\<close> and the other fields of the client are
  untouched, and no external call is made. It raises nothing and returns \<open>None\<close>, the
  value a successful connect returns as well.
\<close>

theorem connect_existing_untouched:
  "has_server s sid \<Longrightarrow>
   connect_to_server E s sid path =
     (Inr (), s\<lparr>stdout := stdout s @ [''Server with ID '' @ quoted sid @ '' already exists.'']\<rparr>)"
  by (simp add: connect_duplicate py_print_def)

text \<open>
  C3, as amended. When \<open>connect_to_server\<close> with a fresh id raises and the attempt has
  not issued the tool-list request (it failed at the script suffix check, at the
  transport, at the session or at the handshake), \<open>servers\<close> and \<open>current_server_id\<close>
  are what they were before the attempt.
\<close>

theorem connect_failure_before_tool_list:
  assumes "\<not> has_server s sid"
    and "connect_to_server E s sid path = (Inl e, s')"
    and "\<forall>h. EvListTools h \<notin> set (drop (length (trace s)) (trace s'))"
  shows "servers s' = servers s \<and> current_server_id s' = current_server_id s"
  using assms(1)
proof (cases rule: connect_fresh_cases [of s sid E path])
  case bad_suffix
  then show ?thesis using assms(2) by simp
next
  case (transport e)
  then show ?thesis using assms(2) by (auto simp: log_call_def)
next
  case (session e rd wr s')
  then show ?thesis using assms(2) by simp
next
  case (handshake e rd wr sess s')
  then show ?thesis using assms(2) by simp
next
  case (tool_list e1 rd wr sess s1)
  then have "EvListTools sess \<in> set (drop (length (trace s)) (trace s'))"
    using assms(2) by simp
  then show ?thesis using assms(3) by blast
next
  case (connected ts rd wr sess s')
  then show ?thesis using assms(2) by simp
qed

text \<open>
  C7. For a registry state (the current server, when set, is registered):
  \<open>disconnected_server\<close> on a registered id returns \<open>True\<close> and removes the entry; when
  the removed entry was current and entries remain, a remaining id becomes current, the
  only remaining one when there is exactly one; when no entry remains the current server
  is unset; when the removed entry was not current the current server stays. On an id
  that is not registered it returns \<open>False\<close> and leaves \<open>servers\<close> and
  \<open>current_server_id\<close> unchanged.
\<close>

theorem disconnect_behaviour:
  assumes ok: "current_ok s"
  shows "(has_server s sid \<longrightarrow>
            fst (disconnected_server s sid) = True \<and>
            servers (snd (disconnected_server s sid)) = AList.delete sid (servers s) \<and>
            \<not> has_server (snd (disconnected_server s sid)) sid \<and>
            (current_server_id s = Some sid \<longrightarrow>
               (servers (snd (disconnected_server s sid)) \<noteq> [] \<longrightarrow>
                  (\<exists>k. current_server_id (snd (disconnected_server s sid)) = Some k \<and>
                       has_server (snd (disconnected_server s sid)) k)) \<and>
               (\<forall>k c. servers (snd (disconnected_server s sid)) = [(k, c)] \<longrightarrow>
                  current_server_id (snd (disconnected_server s sid)) = Some k)) \<and>
            (current_server_id s \<noteq> Some sid \<longrightarrow>
               current_server_id (snd (disconnected_server s sid)) = current_server_id s) \<and>
            (servers (snd (disconnected_server s sid)) = [] \<longrightarrow>
               current_server_id (snd (disconnected_server s sid)) = None)) \<and>
         (\<not> has_server s sid \<longrightarrow>
            fst (disconnected_server s sid) = False \<and>
            servers (snd (disconnected_server s sid)) = servers s \<and>
            current_server_id (snd (disconnected_server s sid)) = current_server_id s)"
proof (cases "has_server s sid")
  case False
  then show ?thesis by (simp add: disconnected_absent py_print_def)
next
  case True
  have gone: "map_of (AList.delete sid (servers s)) sid = None"
    by (simp add: delete_conv')
  have empty: "AList.delete sid (servers s) = [] \<Longrightarrow> new_current s sid = None"
  proof -
    assume e: "AList.delete sid (servers s) = []"
    show ?thesis
    proof (cases "current_server_id s")
      case None
      then show ?thesis by (simp add: new_current_def)
    next
      case (Some c)
      show ?thesis
      proof (cases "c = sid")
        case True
        then show ?thesis using Some e by (simp add: new_current_def)
      next
        case False
        have "map_of (servers s) c \<noteq> None" using ok Some by (simp add: current_ok_iff)
        then have "map_of (AList.delete sid (servers s)) c \<noteq> None"
          using False by (simp add: delete_conv')
        then show ?thesis using e by simp
      qed
    qed
  qed
  show ?thesis
    using True gone empty
    by (auto simp: disconnected_present py_print_def has_server_def new_current_def
        split: list.splits)
qed

section \<open>The calculator server, evaluated\<close>

lemma calc_client_eq:
  "calc_client =
     \<lparr>self_session = Some 3, self_stdio = Some 1, self_write = Some 2, exit_stack = 2,
      servers = [(''calc'', \<lparr>server_id = ''calc'', session = 3, stdio = 1, write_h = 2,
                              tools = [add_tool]\<rparr>)],
      current_server_id = Some ''calc'',
      trace = [EvStdioClient ''python'' [''calc.py''], EvClientSession 1 2, EvInitialize 3,
               EvListTools 3],
      stdout = [nl # ''Connected to server with tools: '' @ show_names [''add'']]\<rparr>"
  by (simp add: calc_client_def connect_to_server_def calc_env_def init_client_def
      has_server_def endswith_def log_call_def py_print_def conn_list_tools_def add_tool_def Let_def)

lemma two_client_registry:
  "servers two_client =
     [(''calc'', \<lparr>server_id = ''calc'', session = 3, stdio = 1, write_h = 2,
                   tools = [add_tool]\<rparr>),
      (''search'', \<lparr>server_id = ''search'', session = 3, stdio = 1, write_h = 2,
                     tools = [add_tool]\<rparr>)]"
  "current_server_id two_client = Some ''calc''"
  by (simp_all add: two_client_def calc_client_eq connect_to_server_def calc_env_def
      has_server_def endswith_def log_call_def py_print_def conn_list_tools_def Let_def)

theorem registry_invariant_witness:
  "current_ok (run_ops calc_env init_client
     (take 2 [Connect ''calc'' ''calc.py'', Disconnect ''calc'', Switch ''calc'']))"
  by (rule registry_invariant)

text \<open>
  A connect with a registered id and a successful connect with a fresh id return the
  same value: the caller is given no sign of the duplicate.
\<close>

theorem connect_duplicate_counterexample:
  "has_server calc_client ''calc'' \<and>
   fst (connect_to_server calc_env calc_client ''calc'' ''other.py'') = Inr () \<and>
   \<not> has_server init_client ''calc'' \<and>
   fst (connect_to_server calc_env init_client ''calc'' ''calc.py'') = Inr ()"
  by (simp add: connect_to_server_def calc_client_eq calc_env_def init_client_def has_server_def
      endswith_def log_call_def py_print_def conn_list_tools_def Let_def)

theorem connect_existing_untouched_witness:
  "has_server calc_client ''calc'' \<and>
   connect_to_server calc_env calc_client ''calc'' ''other.py'' =
     (Inr (), calc_client\<lparr>stdout := stdout calc_client
        @ [''Server with ID '' @ quoted ''calc'' @ '' already exists.'']\<rparr>)"
proof -
  have h: "has_server calc_client ''calc''"
    by (simp add: calc_client_eq has_server_def)
  show ?thesis using h connect_existing_untouched [OF h, of calc_env "''other.py''"] by simp
qed

theorem connect_failure_before_tool_list_witness:
  "\<not> has_server init_client ''calc'' \<and>
   fst (connect_to_server handshake_fail_env init_client ''calc'' ''calc.py'')
     = Inl (ExternalError ''handshake failed'') \<and>
   servers (snd (connect_to_server handshake_fail_env init_client ''calc'' ''calc.py''))
     = servers init_client \<and>
   current_server_id (snd (connect_to_server handshake_fail_env init_client ''calc'' ''calc.py''))
     = current_server_id init_client"
proof -
  let ?c = "connect_to_server handshake_fail_env init_client ''calc'' ''calc.py''"
  have fresh: "\<not> has_server init_client ''calc''"
    by (simp add: has_server_def init_client_def)
  have r: "fst ?c = Inl (ExternalError ''handshake failed'')"
    and t: "trace (snd ?c) = [EvStdioClient ''python'' [''calc.py''], EvClientSession 1 2,
                               EvInitialize 3]"
    by (simp_all add: connect_to_server_def handshake_fail_env_def calc_env_def init_client_def
        has_server_def endswith_def log_call_def Let_def)
  have eq: "?c = (Inl (ExternalError ''handshake failed''), snd ?c)"
    using r by (simp add: prod_eq_iff)
  have ti: "trace init_client = []"
    by (simp add: init_client_def)
  have quiet: "\<forall>h. EvListTools h \<notin> set (drop (length (trace init_client)) (trace (snd ?c)))"
    by (simp add: t ti)
  show ?thesis
    using fresh r connect_failure_before_tool_list [OF fresh eq quiet] by simp
qed

theorem connect_failure_at_tool_list_counterexample:
  "\<not> has_server init_client ''calc'' \<and>
   fst (connect_to_server tool_list_fail_env init_client ''calc'' ''calc.py'')
     = Inl (ExternalError ''connection closed'') \<and>
   servers (snd (connect_to_server tool_list_fail_env init_client ''calc'' ''calc.py''))
     \<noteq> servers init_client \<and>
   current_server_id (snd (connect_to_server tool_list_fail_env init_client ''calc'' ''calc.py''))
     \<noteq> current_server_id init_client"
  by (simp add: connect_to_server_def tool_list_fail_env_def calc_env_def init_client_def
      has_server_def endswith_def log_call_def conn_list_tools_def Let_def)

theorem disconnect_behaviour_witness:
  "current_ok two_client \<and> has_server two_client ''calc'' \<and>
   current_server_id two_client = Some ''calc'' \<and>
   fst (disconnected_server two_client ''calc'') = True \<and>
   map fst (servers (snd (disconnected_server two_client ''calc''))) = [''search''] \<and>
   current_server_id (snd (disconnected_server two_client ''calc'')) = Some ''search''"
proof -
  have ok: "current_ok two_client"
    by (simp add: current_ok_def two_client_registry has_server_def)
  have h: "has_server two_client ''calc''"
    by (simp add: two_client_registry has_server_def)
  show ?thesis
    using ok h disconnect_behaviour [OF ok, of "''calc''"]
    by (simp add: two_client_registry)
qed

section \<open>One query\<close>

lemma fst_add_tools: "fst (add_tools sid ts acc) = fst acc @ map (qualified_tool sid) ts"
proof (induction ts arbitrary: acc)
  case Nil
  then show ?case by simp
next
  case (Cons t ts)
  obtain cat m where acc: "acc = (cat, m)" by (cases acc)
  show ?case by (simp add: acc Cons.IH)
qed

lemma snd_add_tools:
  "snd (add_tools sid ts acc) n = (if n \<in> name ` set ts then Some sid else snd acc n)"
proof (induction ts arbitrary: acc)
  case Nil
  then show ?case by simp
next
  case (Cons t ts)
  obtain cat m where acc: "acc = (cat, m)" by (cases acc)
  show ?case by (auto simp: acc Cons.IH)
qed

lemma build_catalog_two:
  assumes a: "list_tools E (trace s) (session cA) = Inr tsA"
    and b: "list_tools E (trace s @ [EvListTools (session cA)]) (session cB) = Inr tsB"
  shows "fst (build_catalog E s [(A, cA), (B, cB)] acc)
           = Inr (add_tools B tsB (add_tools A tsA acc))"
  using a b by (simp add: conn_list_tools_def log_call_def Let_def)

lemma prefixed_differ:
  assumes "CHR '' '' \<notin> set A" "CHR '' '' \<notin> set B" "A \<noteq> B"
  shows "''[Server: '' @ A @ ''] '' @ dA \<noteq> ''[Server: '' @ B @ ''] '' @ dB"
proof
  assume "''[Server: '' @ A @ ''] '' @ dA = ''[Server: '' @ B @ ''] '' @ dB"
  then have eq: "(A @ '']'') @ CHR '' '' # dA = (B @ '']'') @ CHR '' '' # dB" by simp
  have "takeWhile (\<lambda>c. c \<noteq> CHR '' '') ((A @ '']'') @ CHR '' '' # dA) = A @ '']''"
    using assms(1) by (subst takeWhile_tail) auto
  moreover have "takeWhile (\<lambda>c. c \<noteq> CHR '' '') ((B @ '']'') @ CHR '' '' # dB) = B @ '']''"
    using assms(2) by (subst takeWhile_tail) auto
  ultimately have "A @ '']'' = B @ '']''" using eq by simp
  then show False using assms(3) by simp
qed

lemma in_set_nth: "x \<in> set xs \<Longrightarrow> \<exists>i < length xs. xs ! i = x"
  by (simp add: in_set_conv_nth)

text \<open>
  C2, as amended. Over a registry of two servers \<open>A\<close> then \<open>B\<close> whose tool lists both
  hold a tool named \<open>x\<close>, the owner mapping built by \<open>process_query\<close> maps \<open>x\<close> to \<open>B\<close>,
  and the catalog holds one entry named \<open>x\<close> per server, that of \<open>A\<close> before that of \<open>B\<close>,
  each with the tool's description behind the prefix \<open>[Server: <id>] \<close>. The two
  descriptions differ whenever neither server id contains a space.
\<close>

theorem catalog_collision:
  assumes reg: "servers s = [(A, cA), (B, cB)]" and ne: "A \<noteq> B"
    and a: "list_tools E (trace s) (session cA) = Inr tsA"
    and b: "list_tools E (trace s @ [EvListTools (session cA)]) (session cB) = Inr tsB"
    and ta: "tA \<in> set tsA" "name tA = x"
    and tb: "tB \<in> set tsB" "name tB = x"
  shows "\<exists>all_tools server_tool_map.
           fst (build_catalog E s (servers s) ([], Map.empty)) = Inr (all_tools, server_tool_map) \<and>
           server_tool_map x = Some B \<and>
           all_tools = map (qualified_tool A) tsA @ map (qualified_tool B) tsB \<and>
           (\<exists>i j. i < j \<and> j < length all_tools \<and>
                  all_tools ! i = qualified_tool A tA \<and> all_tools ! j = qualified_tool B tB) \<and>
           td_name (qualified_tool A tA) = x \<and> td_name (qualified_tool B tB) = x \<and>
           td_description (qualified_tool A tA) = ''[Server: '' @ A @ ''] '' @ description tA \<and>
           td_description (qualified_tool B tB) = ''[Server: '' @ B @ ''] '' @ description tB \<and>
           (CHR '' '' \<notin> set A \<and> CHR '' '' \<notin> set B \<longrightarrow>
              td_description (qualified_tool A tA) \<noteq> td_description (qualified_tool B tB))"
proof -
  let ?cat = "add_tools B tsB (add_tools A tsA ([], Map.empty))"
  let ?all = "map (qualified_tool A) tsA @ map (qualified_tool B) tsB"
  have res: "fst (build_catalog E s (servers s) ([], Map.empty)) = Inr (fst ?cat, snd ?cat)"
    using build_catalog_two [OF a b] reg by simp
  have all: "fst ?cat = ?all" by (simp add: fst_add_tools)
  have own: "snd ?cat x = Some B" using tb by (auto simp: snd_add_tools)
  obtain i where i: "i < length tsA" "tsA ! i = tA" using ta(1) in_set_nth by metis
  obtain j where j: "j < length tsB" "tsB ! j = tB" using tb(1) in_set_nth by metis
  have pos: "i < length tsA + j \<and> length tsA + j < length ?all \<and>
             ?all ! i = qualified_tool A tA \<and> ?all ! (length tsA + j) = qualified_tool B tB"
    using i j by (simp add: nth_append)
  have names: "td_name (qualified_tool A tA) = x \<and> td_name (qualified_tool B tB) = x"
    using ta(2) tb(2) by (simp add: qualified_tool_def)
  have descr: "td_description (qualified_tool A tA) = ''[Server: '' @ A @ ''] '' @ description tA \<and>
               td_description (qualified_tool B tB) = ''[Server: '' @ B @ ''] '' @ description tB"
    by (simp add: qualified_tool_def)
  have differ: "CHR '' '' \<notin> set A \<and> CHR '' '' \<notin> set B \<longrightarrow>
                td_description (qualified_tool A tA) \<noteq> td_description (qualified_tool B tB)"
    using prefixed_differ [of A B "description tA" "description tB"] ne descr by auto
  have ex: "\<exists>i j. i < j \<and> j < length ?all \<and>
                 ?all ! i = qualified_tool A tA \<and> ?all ! j = qualified_tool B tB"
    using pos by blast
  show ?thesis
    unfolding res all using own ex names descr differ by simp
qed


lemma unknown_tool_block:
  "m n = None \<Longrightarrow>
   process_block E all_tools m st s (ToolUseBlock tid n a)
     = (Inr (st\<lparr>final_text := final_text st
           @ [''Error: Tool '' @ n @ '' not found on any connected server.'']\<rparr>), s)"
  by (simp add: tool_not_found_def)





text \<open>
  C6. In every state reached from the initial client by connect, switch and disconnect
  operations in which the registry is empty, \<open>process_query\<close> returns the
  no-active-server message and the client is unchanged: nothing is printed and no call
  to the model or to a server is made.
\<close>

theorem no_active_server_query:
  assumes "servers (run_ops E init_client ops) = []"
  shows "process_query E (run_ops E init_client ops) query
           = (Inr '' No active server. Please to at least one server first'',
              run_ops E init_client ops)"
proof -
  have "current_ok (run_ops E init_client ops)"
    by (rule current_ok_run [OF current_ok_init])
  then have "current_server_id (run_ops E init_client ops) = None"
    using assms by (simp add: current_ok_iff)
  then show ?thesis by (simp add: process_query_def falsy_def no_active_server_def)
qed

lemma clash_client_facts:
  "servers clash_client =
     [(''s'', \<lparr>server_id = ''s'', session = 1, stdio = 1, write_h = 2,
                tools = [\<lparr>name = ''x'', description = ''x] d'', inputSchema = JNull\<rparr>]\<rparr>),
      (''s] x'', \<lparr>server_id = ''s] x'', session = 5, stdio = 1, write_h = 2,
                   tools = [\<lparr>name = ''x'', description = ''d'', inputSchema = JNull\<rparr>]\<rparr>)]"
  "length (trace clash_client) = 8"
  by (simp_all add: clash_client_def run_ops_def connect_to_server_def clash_env_def calc_env_def
      init_client_def has_server_def endswith_def log_call_def py_print_def conn_list_tools_def
      Let_def)

theorem catalog_collision_counterexample:
  "map fst (servers clash_client) = [''s'', ''s] x''] \<and>
   map_sum id fst (fst (build_catalog clash_env clash_client (servers clash_client)
                          ([], Map.empty)))
     = Inr [\<lparr>td_name = ''x'', td_description = ''[Server: s] x] d'', td_input_schema = JNull\<rparr>,
            \<lparr>td_name = ''x'', td_description = ''[Server: s] x] d'', td_input_schema = JNull\<rparr>]"
  by (simp add: clash_client_facts conn_list_tools_def log_call_def clash_env_def calc_env_def
      qualified_tool_def Let_def)

text \<open>
  C1, as amended. The registry holds the one server \<open>calc\<close>, which lists the tool \<open>add\<close>;
  the model answers the query with a single \<open>tool_use\<close> block for \<open>add\<close>, the call
  returns, and the model answers the conversation extended by the tool result with the
  text \<open>The result is 5\<close>. Then \<open>process_query\<close> returns two fragments joined by a line
  feed: the notice \<open>[Calling tool add on server calc with args <args>]\<close> and
  \<open>The result is 5\<close>.
\<close>

theorem calc_add_answer:
  assumes reg: "servers s = [(''calc'', c)]" and cur: "current_server_id s = Some ''calc''"
    and lt: "list_tools E (trace s) (session c) = Inr [t]" and nm: "name t = ''add''"
    and m1: "messages_create E (trace s @ [EvListTools (session c)])
               (mk_request [] [UserQuery q] [qualified_tool ''calc'' t])
             = Inr [ToolUseBlock tid ''add'' args]"
    and ct: "call_tool E
               (trace s @ [EvListTools (session c),
                           EvMessagesCreate (mk_request [] [UserQuery q] [qualified_tool ''calc'' t])])
               (session c) ''add'' args = Inr r"
    and m2: "messages_create E
               (trace s @ [EvListTools (session c),
                           EvMessagesCreate (mk_request [] [UserQuery q] [qualified_tool ''calc'' t]),
                           EvCallTool (session c) ''add'' args])
               (mk_request [ToolUseBlock tid ''add'' args]
                  [UserQuery q, AssistantRef, ToolResult tid r] [qualified_tool ''calc'' t])
             = Inr [TextBlock ''The result is 5'']"
  shows "fst (process_query E s q)
           = Inr (''[Calling tool add on server calc with args '' @ py_str E args @ '']''
                  @ [nl] @ ''The result is 5'')"
  using reg cur lt nm m1 ct m2
  by (simp add: process_query_def falsy_def conn_list_tools_def conn_call_tool_def
      anthropic_create_def log_call_def calling_notice_def Let_def)


theorem calc_add_answer_counterexample:
  "fst (process_query calc_env calc_client ''What is 2 + 3?'')
     = Inr (''[Calling tool add on server calc with args {'' @ quoted ''a'' @ '': 2, ''
            @ quoted ''b'' @ '': 3}]'' @ [nl] @ ''The result is 5'') \<and>
   fst (process_query calc_env calc_client ''What is 2 + 3?'') \<noteq> Inr ''The result is 5''"
  by (simp add: process_query_def calc_client_eq calc_env_def falsy_def conn_list_tools_def
      conn_call_tool_def anthropic_create_def mk_request_def log_call_def calling_notice_def
      add_tool_def add_args_def show_int_def show_nat.simps digit_char_def quoted_def Let_def)

theorem calc_add_answer_witness:
  "servers calc_client
     = [(''calc'', \<lparr>server_id = ''calc'', session = 3, stdio = 1, write_h = 2,
                     tools = [add_tool]\<rparr>)] \<and>
   current_server_id calc_client = Some ''calc'' \<and>
   fst (process_query calc_env calc_client ''What is 2 + 3?'')
     = Inr (''[Calling tool add on server calc with args '' @ py_str calc_env add_args @ '']''
            @ [nl] @ ''The result is 5'')"
proof -
  let ?c = "\<lparr>server_id = ''calc'', session = 3, stdio = 1, write_h = 2, tools = [add_tool]\<rparr>"
  have reg: "servers calc_client = [(''calc'', ?c)]"
    and cur: "current_server_id calc_client = Some ''calc''"
    by (simp_all add: calc_client_eq)
  have lt: "list_tools calc_env (trace calc_client) (session ?c) = Inr [add_tool]"
    by (simp add: calc_env_def)
  have nm: "name add_tool = ''add''"
    by (simp add: add_tool_def)
  have m1: "messages_create calc_env (trace calc_client @ [EvListTools (session ?c)])
              (mk_request [] [UserQuery ''What is 2 + 3?''] [qualified_tool ''calc'' add_tool])
            = Inr [ToolUseBlock ''toolu_01'' ''add'' add_args]"
    by (simp add: calc_env_def mk_request_def)
  have ct: "call_tool calc_env
              (trace calc_client @ [EvListTools (session ?c),
                 EvMessagesCreate (mk_request [] [UserQuery ''What is 2 + 3?'']
                                     [qualified_tool ''calc'' add_tool])])
              (session ?c) ''add'' add_args = Inr (JInt 5)"
    by (simp add: calc_env_def)
  have m2: "messages_create calc_env
              (trace calc_client @ [EvListTools (session ?c),
                 EvMessagesCreate (mk_request [] [UserQuery ''What is 2 + 3?'']
                                     [qualified_tool ''calc'' add_tool]),
                 EvCallTool (session ?c) ''add'' add_args])
              (mk_request [ToolUseBlock ''toolu_01'' ''add'' add_args]
                 [UserQuery ''What is 2 + 3?'', AssistantRef, ToolResult ''toolu_01'' (JInt 5)]
                 [qualified_tool ''calc'' add_tool])
            = Inr [TextBlock ''The result is 5'']"
    by (simp add: calc_env_def mk_request_def)
  show ?thesis
    using reg cur calc_add_answer [OF reg cur lt nm m1 ct m2] by simp
qed

theorem catalog_collision_witness:
  "map fst (servers two_client) = [''calc'', ''search''] \<and>
   map_sum id fst (fst (build_catalog calc_env two_client (servers two_client) ([], Map.empty)))
     = Inr [qualified_tool ''calc'' add_tool, qualified_tool ''search'' add_tool] \<and>
   (case fst (build_catalog calc_env two_client (servers two_client) ([], Map.empty)) of
      Inl e \<Rightarrow> None | Inr (all_tools, server_tool_map) \<Rightarrow> server_tool_map ''add'')
     = Some ''search'' \<and>
   td_description (qualified_tool ''calc'' add_tool)
     \<noteq> td_description (qualified_tool ''search'' add_tool)"
proof -
  let ?cA = "\<lparr>server_id = ''calc'', session = 3, stdio = 1, write_h = 2, tools = [add_tool]\<rparr>"
  let ?cB = "\<lparr>server_id = ''search'', session = 3, stdio = 1, write_h = 2, tools = [add_tool]\<rparr>"
  have reg: "servers two_client = [(''calc'', ?cA), (''search'', ?cB)]"
    by (simp add: two_client_registry)
  have ne: "''calc'' \<noteq> ''search''" by simp
  have a: "list_tools calc_env (trace two_client) (session ?cA) = Inr [add_tool]"
    by (simp add: calc_env_def)
  have b: "list_tools calc_env (trace two_client @ [EvListTools (session ?cA)]) (session ?cB)
             = Inr [add_tool]"
    by (simp add: calc_env_def)
  have t: "add_tool \<in> set [add_tool]" "name add_tool = ''add''"
    by (simp_all add: add_tool_def)
  have sp: "CHR '' '' \<notin> set ''calc'' \<and> CHR '' '' \<notin> set ''search''" by simp
  show ?thesis
    using catalog_collision [OF reg ne a b t t] sp reg by auto
qed


theorem no_server_witness:
  "servers (run_ops calc_env init_client [Connect ''calc'' ''calc.py'', Disconnect ''calc'']) = [] \<and>
   process_query calc_env
       (run_ops calc_env init_client [Connect ''calc'' ''calc.py'', Disconnect ''calc''])
       ''hello''
     = (Inr '' No active server. Please to at least one server first'',
        run_ops calc_env init_client [Connect ''calc'' ''calc.py'', Disconnect ''calc''])"
proof -
  have e: "servers (run_ops calc_env init_client
             [Connect ''calc'' ''calc.py'', Disconnect ''calc'']) = []"
    by (simp add: run_ops_def calc_client_def [symmetric] calc_client_eq disconnected_server_def
        has_server_def py_print_def Let_def)
  show ?thesis using e no_active_server_query [OF e, of "''hello''"] by simp
qed

section \<open>The interactive loop\<close>













section \<open>Startup\<close>








end
